theory Spec2Isabelle
  imports Main
begin

section \<open>Strings of the host language\<close>

text \<open>
  A source string is a \<^typ>\<open>string\<close>; one character stands for one code unit below 256.
  \<open>String.prototype.trim\<close> removes white space and line terminators from both ends; in that
  range these are TAB, LF, VT, FF, CR, SPACE and NBSP.
\<close>

definition js_whitespace :: "char \<Rightarrow> bool" where
  "js_whitespace c \<longleftrightarrow>
     c \<in> {CHR 0x09, CHR 0x0A, CHR 0x0B, CHR 0x0C, CHR 0x0D, CHR 0x20, CHR 0xA0}"

definition trim :: "string \<Rightarrow> string" where
  "trim s = rev (dropWhile js_whitespace (rev (dropWhile js_whitespace s)))"

text \<open>\<open>Array.prototype.join\<close> on an array of strings.\<close>

fun join :: "string \<Rightarrow> string list \<Rightarrow> string" where
  "join sep [] = []"
| "join sep [x] = x"
| "join sep (x # y # ys) = x @ sep @ join sep (y # ys)"

text \<open>\<open>Boolean\<close> applied to a string: the empty string is the only falsy one.\<close>

definition truthy :: "string \<Rightarrow> bool" where
  "truthy s \<longleftrightarrow> s \<noteq> []"

section \<open>Data model (types/planner.ts)\<close>

datatype VideoTaskStatus = Draft | Ready | Queued | Publishing | Published | Failed

text \<open>
  \<open>TaskDraft\<close> is \<open>Omit<VideoTask, "id" | "status" | "createdAt" | "updatedAt">\<close>, the type
  of the staging form's state; \<open>VideoTask\<close> adds the four omitted fields. The field \<open>id\<close> is
  named \<open>task_id\<close> here and \<open>notes\<close>, optional in the source, \<open>task_notes\<close>.
\<close>

record TaskDraft =
  date :: string
  time :: string
  title :: string
  caption :: string
  hashtags :: "string list"
  videoUrl :: string
  autopost :: bool
  task_notes :: "string option"

record VideoTask = TaskDraft +
  task_id :: string
  status :: VideoTaskStatus
  createdAt :: string
  updatedAt :: string

text \<open>
  \<open>Partial<VideoTask>\<close>: every key may be absent (\<open>None\<close>). For \<open>notes\<close>, whose own type
  admits \<open>undefined\<close>, a present key may carry \<open>undefined\<close> (\<open>Some None\<close>).
\<close>

record TaskUpdates =
  upd_date :: "string option"
  upd_time :: "string option"
  upd_title :: "string option"
  upd_caption :: "string option"
  upd_hashtags :: "string list option"
  upd_videoUrl :: "string option"
  upd_autopost :: "bool option"
  upd_notes :: "string option option"
  upd_task_id :: "string option"
  upd_status :: "VideoTaskStatus option"
  upd_createdAt :: "string option"
  upd_updatedAt :: "string option"

definition no_updates :: TaskUpdates where
  "no_updates = \<lparr>upd_date = None, upd_time = None, upd_title = None, upd_caption = None,
     upd_hashtags = None, upd_videoUrl = None, upd_autopost = None, upd_notes = None,
     upd_task_id = None, upd_status = None, upd_createdAt = None, upd_updatedAt = None\<rparr>"

text \<open>One key of an object spread \<open>{...task, ...updates}\<close>: a present key overrides.\<close>

definition spread_key :: "'a \<Rightarrow> 'a option \<Rightarrow> 'a" where
  "spread_key old new = (case new of None \<Rightarrow> old | Some v \<Rightarrow> v)"

definition spread :: "VideoTask \<Rightarrow> TaskUpdates \<Rightarrow> VideoTask" where
  "spread task updates =
     \<lparr>date = spread_key (date task) (upd_date updates),
      time = spread_key (time task) (upd_time updates),
      title = spread_key (title task) (upd_title updates),
      caption = spread_key (caption task) (upd_caption updates),
      hashtags = spread_key (hashtags task) (upd_hashtags updates),
      videoUrl = spread_key (videoUrl task) (upd_videoUrl updates),
      autopost = spread_key (autopost task) (upd_autopost updates),
      task_notes = spread_key (task_notes task) (upd_notes updates),
      task_id = spread_key (task_id task) (upd_task_id updates),
      status = spread_key (status task) (upd_status updates),
      createdAt = spread_key (createdAt task) (upd_createdAt updates),
      updatedAt = spread_key (updatedAt task) (upd_updatedAt updates)\<rparr>"

section \<open>The task collection (page.tsx)\<close>

text \<open>
  \<open>updateTask\<close> and \<open>deleteTask\<close> hand \<open>setTasks\<close> a function of the current collection;
  these are those functions. \<open>now\<close> is the value of \<open>new Date().toISOString()\<close>.
\<close>

definition updateTask :: "string \<Rightarrow> TaskUpdates \<Rightarrow> string \<Rightarrow> VideoTask list \<Rightarrow> VideoTask list" where
  "updateTask taskId updates now current =
     map (\<lambda>task. if task_id task = taskId then (spread task updates)\<lparr>updatedAt := now\<rparr> else task)
       current"

definition deleteTask :: "string \<Rightarrow> VideoTask list \<Rightarrow> VideoTask list" where
  "deleteTask taskId current = filter (\<lambda>task. task_id task \<noteq> taskId) current"

text \<open>
  The part of the component state of \<open>Home\<close> that the handlers below read or write.
  \<open>setTasks\<close> applies an updater function to the current collection; writing the result
  to \<open>localStorage\<close> as well is the hook's part, modelled with the hook further down.
\<close>

record PageState =
  tasks :: "VideoTask list"
  draft :: TaskDraft
  topic :: string
  callToAction :: string
  hook :: string
  isPublishing :: "string option"

definition setTasks :: "(VideoTask list \<Rightarrow> VideoTask list) \<Rightarrow> PageState \<Rightarrow> PageState" where
  "setTasks f st = st\<lparr>tasks := f (tasks st)\<rparr>"

definition defaultTime :: string where
  "defaultTime = ''10:00''"

text \<open>\<open>isoNow\<close> is \<open>new Date().toISOString()\<close>; \<open>slice(0, 10)\<close> keeps its first ten units.\<close>

definition initialTaskDraft :: "string \<Rightarrow> TaskDraft" where
  "initialTaskDraft isoNow =
     \<lparr>date = take 10 isoNow, time = defaultTime, title = [], caption = [], hashtags = [],
      videoUrl = [], autopost = True, task_notes = Some []\<rparr>"

text \<open>
  \<open>saveTaskDraft\<close>: \<open>newId\<close> is the value of \<open>createId()\<close>; the three instants are the three
  evaluations of \<open>new Date().toISOString()\<close>, in source order.
\<close>

definition saveTaskDraft :: "string \<Rightarrow> string \<Rightarrow> string \<Rightarrow> string \<Rightarrow> PageState \<Rightarrow> PageState" where
  "saveTaskDraft newId createdNow updatedNow resetNow st =
     (let d = draft st;
          newTask =
            \<lparr>date = date d, time = time d, title = title d, caption = caption d,
             hashtags = filter truthy (map trim (hashtags d)),
             videoUrl = videoUrl d, autopost = autopost d, task_notes = task_notes d,
             task_id = newId,
             status = (if autopost d then Queued else Ready),
             createdAt = createdNow, updatedAt = updatedNow\<rparr>
      in (setTasks (\<lambda>current. current @ [newTask]) st)
           \<lparr>draft := initialTaskDraft resetNow, hook := [], topic := [], callToAction := []\<rparr>)"

subsection \<open>Overdue projection\<close>

text \<open>
  A \<open>Date\<close> is its time value: \<open>Some ms\<close>, or \<open>None\<close> for an invalid date. The parser behind
  \<open>new Date(string)\<close> belongs to the host and is a parameter. \<open>isBefore\<close> (date-fns) compares
  the two time values with \<open><\<close>, which is false as soon as one of them is \<open>NaN\<close>.
\<close>

definition isBefore :: "int option \<Rightarrow> int option \<Rightarrow> bool" where
  "isBefore d dateToCompare =
     (case d of None \<Rightarrow> False
      | Some a \<Rightarrow> (case dateToCompare of None \<Rightarrow> False | Some b \<Rightarrow> a < b))"

definition scheduledAt :: "(string \<Rightarrow> int option) \<Rightarrow> VideoTask \<Rightarrow> int option" where
  "scheduledAt parseDate task = parseDate (date task @ ''T'' @ time task)"

definition overdueTasks :: "(string \<Rightarrow> int option) \<Rightarrow> int \<Rightarrow> VideoTask list \<Rightarrow> VideoTask list" where
  "overdueTasks parseDate now current =
     filter (\<lambda>task. isBefore (scheduledAt parseDate task) (Some now) \<and> status task \<noteq> Published)
       current"

subsection \<open>Publishing one task\<close>

text \<open>
  A thrown value is an instance of \<open>Error\<close> with its message, or anything else. The two
  messages below are the wording a V8 host gives its \<open>TypeError\<close>s; no result depends on
  the wording.
\<close>

datatype thrown = ErrorInstance string | OtherValue

definition cannotReadNull :: "string \<Rightarrow> string" where
  "cannotReadNull prop =
     ''Cannot read properties of null (reading '' @ [CHR 0x27] @ prop @ [CHR 0x27] @ '')''"

definition notAFunction :: "string \<Rightarrow> string" where
  "notAFunction expr = expr @ '' is not a function''"

record PublishPayload =
  payload_videoUrl :: string
  payload_caption :: string

definition publishPayload :: "VideoTask \<Rightarrow> PublishPayload" where
  "publishPayload task =
     \<lparr>payload_videoUrl = videoUrl task,
      payload_caption =
        join [CHR 0x0A, CHR 0x0A] (filter truthy [caption task, join '' '' (hashtags task)])\<rparr>"

text \<open>
  What \<open>fetch\<close> brings back. \<open>result\<close> has the declared type
  \<open>{status: string; message: string; instagramMediaId?: string}\<close>; a key that is absent or
  \<open>null\<close> is \<open>None\<close>, and a body that parses to \<open>null\<close> is the result \<open>None\<close>. \<open>fetch\<close>
  itself may reject (\<open>Inl\<close>), and so may \<open>response.json()\<close>.
\<close>

record FetchResult =
  res_status :: "string option"
  res_message :: "string option"
  res_instagramMediaId :: "string option"

record FetchResponse =
  ok :: bool
  json :: "thrown + FetchResult option"

type_synonym fetched = "thrown + FetchResponse"

text \<open>The body of the \<open>try\<close> block after the request: the update it asks for, or what it throws.\<close>

definition tryPublish :: "fetched \<Rightarrow> thrown + TaskUpdates" where
  "tryPublish fetched =
     (case fetched of
        Inl e \<Rightarrow> Inl e
      | Inr response \<Rightarrow>
          (case json response of
             Inl e \<Rightarrow> Inl e
           | Inr result \<Rightarrow>
               (if ok response then
                  (case result of
                     None \<Rightarrow> Inl (ErrorInstance (cannotReadNull ''status''))
                   | Some r \<Rightarrow>
                       (if res_status r = Some ''success'' then
                          Inr (no_updates\<lparr>upd_status := Some Published,
                                 upd_notes := Some (Some (''Published with media id '' @
                                   (case res_instagramMediaId r of None \<Rightarrow> ''unknown''
                                    | Some m \<Rightarrow> m)))\<rparr>)
                        else
                          Inr (no_updates\<lparr>upd_status := Some Failed,
                                 upd_notes := Some (Some (case res_message r of
                                   None \<Rightarrow> ''Failed to publish video.'' | Some m \<Rightarrow> m))\<rparr>)))
                else
                  Inr (no_updates\<lparr>upd_status := Some Failed,
                         upd_notes := Some (Some (case result of
                             None \<Rightarrow> ''Failed to publish video.''
                           | Some r \<Rightarrow> (case res_message r of
                               None \<Rightarrow> ''Failed to publish video.'' | Some m \<Rightarrow> m)))\<rparr>))))"

definition catchPublish :: "thrown \<Rightarrow> TaskUpdates" where
  "catchPublish e =
     no_updates\<lparr>upd_status := Some Failed,
       upd_notes := Some (Some (case e of ErrorInstance m \<Rightarrow> m
                                | OtherValue \<Rightarrow> ''Unexpected error while publishing.''))\<rparr>"

text \<open>
  \<open>handlePublish\<close> runs in two parts around the one suspension point: up to the request
  (\<open>handlePublish_start\<close>) and from the settled request on (\<open>handlePublish_finish\<close>). Each
  \<open>updateTask\<close> acts on the collection current at that moment.
\<close>

definition handlePublish_start :: "string \<Rightarrow> VideoTask \<Rightarrow> PageState \<Rightarrow> PageState" where
  "handlePublish_start now task st =
     setTasks (updateTask (task_id task) (no_updates\<lparr>upd_status := Some Publishing\<rparr>) now)
       (st\<lparr>isPublishing := Some (task_id task)\<rparr>)"

definition handlePublish_finish :: "string \<Rightarrow> VideoTask \<Rightarrow> fetched \<Rightarrow> PageState \<Rightarrow> PageState" where
  "handlePublish_finish now task fetched st =
     (setTasks
        (updateTask (task_id task)
           (case tryPublish fetched of Inr updates \<Rightarrow> updates | Inl e \<Rightarrow> catchPublish e) now)
        st)
       \<lparr>isPublishing := None\<rparr>"

definition handlePublish ::
  "(PublishPayload \<Rightarrow> fetched) \<Rightarrow> string \<Rightarrow> string \<Rightarrow> VideoTask \<Rightarrow> PageState \<Rightarrow> PageState" where
  "handlePublish fetch now1 now2 task st =
     handlePublish_finish now2 task (fetch (publishPayload task)) (handlePublish_start now1 task st)"


section \<open>The publish endpoint (POST /api/instagram/publish)\<close>

text \<open>
  \<open>request.json()\<close> rejects (\<open>Inl\<close>) on a body that is not JSON, and otherwise yields any
  JSON value: \<open>null\<close> (\<open>None\<close>) or a value whose keys \<open>videoUrl\<close> and \<open>caption\<close> are each
  absent or \<open>null\<close> (\<open>Absent\<close>), a string, or some other value. A number, a boolean, a string
  or an array as the whole body has neither key.
\<close>

datatype json_field = Absent | Str string | NonString

record PublishRequestBody =
  body_videoUrl :: json_field
  body_caption :: json_field

type_synonym request = "thrown + PublishRequestBody option"

record PublishResponse =
  resp_status :: string
  resp_message :: string
  resp_instagramMediaId :: "string option"
  resp_publishId :: "string option"

record NextResponse =
  payload :: PublishResponse
  statusCode :: nat

definition errorPayload :: "string \<Rightarrow> PublishResponse" where
  "errorPayload msg =
     \<lparr>resp_status = ''error'', resp_message = msg, resp_instagramMediaId = None,
      resp_publishId = None\<rparr>"

text \<open>\<open>x?.trim()\<close>: \<open>undefined\<close> when \<open>x\<close> is nullish, a \<open>TypeError\<close> when \<open>x\<close> has no \<open>trim\<close>.\<close>

definition optionalTrim :: "string \<Rightarrow> json_field \<Rightarrow> thrown + string option" where
  "optionalTrim expr x =
     (case x of
        Absent \<Rightarrow> Inr None
      | Str s \<Rightarrow> Inr (Some (trim s))
      | NonString \<Rightarrow> Inl (ErrorInstance (notAFunction (expr @ ''?.trim''))))"

text \<open>
  The handler returns what it answers, or what it throws, together with the list of calls
  it made to \<open>publishVideo\<close> (of \<open>lib/instagram\<close>, a parameter here). The call is awaited
  outside any \<open>try\<close>: when it rejects (\<open>Inl\<close>), the handler throws what it rejected with.
\<close>

definition POST ::
  "(string \<Rightarrow> string \<Rightarrow> thrown + PublishResponse) \<Rightarrow> request \<Rightarrow>
     (thrown + NextResponse) \<times> (string \<times> string) list" where
  "POST publishVideo request =
     (case request of
        Inl _ \<Rightarrow>
          (Inr \<lparr>payload = errorPayload ''Invalid JSON body received.'', statusCode = 400\<rparr>, [])
      | Inr None \<Rightarrow> (Inl (ErrorInstance (cannotReadNull ''videoUrl'')), [])
      | Inr (Some body) \<Rightarrow>
          (case optionalTrim ''body.videoUrl'' (body_videoUrl body) of
             Inl e \<Rightarrow> (Inl e, [])
           | Inr url \<Rightarrow>
               (case optionalTrim ''body.caption'' (body_caption body) of
                  Inl e \<Rightarrow> (Inl e, [])
                | Inr cap \<Rightarrow>
                    (case url of
                       None \<Rightarrow>
                         (Inr \<lparr>payload = errorPayload ''Provide a publicly accessible videoUrl.'',
                               statusCode = 400\<rparr>, [])
                     | Some u \<Rightarrow>
                         if \<not> truthy u then
                           (Inr \<lparr>payload = errorPayload ''Provide a publicly accessible videoUrl.'',
                                 statusCode = 400\<rparr>, [])
                         else
                           (case cap of
                              None \<Rightarrow>
                                (Inr \<lparr>payload = errorPayload ''Caption cannot be empty.'',
                                      statusCode = 400\<rparr>, [])
                            | Some c \<Rightarrow>
                                if \<not> truthy c then
                                  (Inr \<lparr>payload = errorPayload ''Caption cannot be empty.'',
                                        statusCode = 400\<rparr>, [])
                                else
                                  (case publishVideo u c of
                                     Inl e \<Rightarrow> (Inl e, [(u, c)])
                                   | Inr publishResponse \<Rightarrow>
                                       (Inr \<lparr>payload = publishResponse,
                                             statusCode =
                                               (if resp_status publishResponse = ''success''
                                                then 200 else 502)\<rparr>,
                                        [(u, c)])))))))"

section \<open>The persistent store (usePersistentState)\<close>












section \<open>Outcomes of a publish attempt, in the words of the specification\<close>

text \<open>
  A dispatch has failed when \<open>fetch\<close> rejected, when the body was not JSON, when the HTTP
  status was not 2xx, or when the status field of the parsed body is not \<open>"success"\<close>.
\<close>

definition dispatch_failed :: "fetched \<Rightarrow> bool" where
  "dispatch_failed fetched =
     (case fetched of
        Inl _ \<Rightarrow> True
      | Inr response \<Rightarrow>
          (case json response of
             Inl _ \<Rightarrow> True
           | Inr result \<Rightarrow>
               \<not> ok response \<or>
               (case result of None \<Rightarrow> True | Some r \<Rightarrow> res_status r \<noteq> Some ''success'')))"

text \<open>A field of the request body is missing when it is absent or empty after trimming.\<close>

definition field_missing :: "json_field \<Rightarrow> bool" where
  "field_missing x = (case x of Absent \<Rightarrow> True | Str s \<Rightarrow> trim s = [] | NonString \<Rightarrow> False)"

section \<open>Example values\<close>

text \<open>A small store of two tasks, used to run the theorems below on concrete inputs.\<close>

definition demo_task :: VideoTask where
  "demo_task =
     \<lparr>date = ''2024-01-01'', time = ''10:00'', title = ''Day 1'', caption = ''Hello'',
      hashtags = [''#a'', ''#b''], videoUrl = ''https://cdn.example/v.mp4'', autopost = True,
      task_notes = None, task_id = ''id1'', status = Queued, createdAt = ''c1'',
      updatedAt = ''u1''\<rparr>"

definition demo_other :: VideoTask where
  "demo_other =
     \<lparr>date = ''2024-01-03'', time = ''09:30'', title = ''Day 3'', caption = ''Later'',
      hashtags = [], videoUrl = ''https://cdn.example/w.mp4'', autopost = False,
      task_notes = Some ''keep'', task_id = ''id2'', status = Published, createdAt = ''c2'',
      updatedAt = ''u2''\<rparr>"

definition demo_page :: PageState where
  "demo_page =
     \<lparr>tasks = [demo_task, demo_other], draft = initialTaskDraft ''2024-01-02T08:00:00.000Z'',
      topic = ''t'', callToAction = ''c'', hook = ''h'', isPublishing = None\<rparr>"

text \<open>A host date parser that knows the two scheduled instants of the example store.\<close>

definition demo_parseDate :: "string \<Rightarrow> int option" where
  "demo_parseDate =
     [''2024-01-01T10:00'' \<mapsto> 1704103200000, ''2024-01-03T09:30'' \<mapsto> 1704274200000]"

text \<open>Two answers of the endpoint: HTTP 502 with an error payload, and HTTP 200 with a media id.\<close>

definition demo_rate_limited :: fetched where
  "demo_rate_limited =
     Inr \<lparr>ok = False, json = Inr (Some \<lparr>res_status = Some ''error'',
       res_message = Some ''rate limited'', res_instagramMediaId = None\<rparr>)\<rparr>"



text \<open>A dispatch whose \<open>fetch\<close> rejects.\<close>

definition demo_network_down :: fetched where
  "demo_network_down = Inl (ErrorInstance ''network down'')"




section \<open>Properties of the update primitive\<close>

lemmas demo_defs = demo_task_def demo_other_def demo_page_def

lemma length_updateTask: "length (updateTask taskId updates now current) = length current"
  by (simp add: updateTask_def)

lemma updateTask_nth:
  "i < length current \<Longrightarrow>
   updateTask taskId updates now current ! i =
     (if task_id (current ! i) = taskId then (spread (current ! i) updates)\<lparr>updatedAt := now\<rparr>
      else current ! i)"
  by (simp add: updateTask_def)

lemma updateTask_absent:
  "taskId \<notin> task_id ` set current \<Longrightarrow> updateTask taskId updates now current = current"
  unfolding updateTask_def by (induction current) auto

lemma task_id_deleteTask: "taskId \<notin> task_id ` set (deleteTask taskId current)"
  by (auto simp: deleteTask_def)

text \<open>
  C9. For every collection, id and partial update: the collection keeps its length; a
  record whose id differs from the given one is left as it was, in every field; a record
  with the given id becomes the old record overlaid with the update, and its \<open>updatedAt\<close>
  is the fresh timestamp, whatever the update said about \<open>updatedAt\<close>. Where ids are unique
  in the collection, the record with the given id is the only one that changes.
\<close>

theorem updateTask_frame:
  assumes "i < length current"
  shows "length (updateTask taskId updates now current) = length current \<and>
         (task_id (current ! i) \<noteq> taskId \<longrightarrow>
            updateTask taskId updates now current ! i = current ! i) \<and>
         (task_id (current ! i) = taskId \<longrightarrow>
            updateTask taskId updates now current ! i =
              (spread (current ! i) updates)\<lparr>updatedAt := now\<rparr> \<and>
            updatedAt (updateTask taskId updates now current ! i) = now) \<and>
         (distinct (map task_id current) \<and> task_id (current ! i) = taskId \<and>
          j < length current \<and> j \<noteq> i \<longrightarrow>
            updateTask taskId updates now current ! j = current ! j)"
proof -
  have "task_id (current ! j) \<noteq> taskId"
    if "distinct (map task_id current)" "task_id (current ! i) = taskId"
      "j < length current" "j \<noteq> i"
  proof
    assume "task_id (current ! j) = taskId"
    then have "map task_id current ! j = map task_id current ! i"
      using that assms by simp
    then show False
      using that assms by (simp add: nth_eq_iff_index_eq del: nth_map)
  qed
  then show ?thesis
    using assms by (auto simp: updateTask_def)
qed

theorem updateTask_frame_witness:
  "(0::nat) < length (tasks demo_page) \<and> (1::nat) < length (tasks demo_page) \<and>
   distinct (map task_id (tasks demo_page)) \<and>
   task_id (tasks demo_page ! 0) = ''id1'' \<and> task_id (tasks demo_page ! 1) \<noteq> ''id1'' \<and>
   length (updateTask ''id1'' (no_updates\<lparr>upd_status := Some Ready\<rparr>) ''n'' (tasks demo_page)) = 2 \<and>
   updatedAt (updateTask ''id1'' (no_updates\<lparr>upd_status := Some Ready\<rparr>) ''n'' (tasks demo_page) ! 0)
     = ''n'' \<and>
   updateTask ''id1'' (no_updates\<lparr>upd_status := Some Ready\<rparr>) ''n'' (tasks demo_page) ! 0 =
     demo_task\<lparr>status := Ready, updatedAt := ''n''\<rparr> \<and>
   updateTask ''id1'' (no_updates\<lparr>upd_status := Some Ready\<rparr>) ''n'' (tasks demo_page) ! 1 =
     demo_other"
  using updateTask_frame [of 0 "tasks demo_page" "''id1''"
          "no_updates\<lparr>upd_status := Some Ready\<rparr>" "''n''" 1]
        updateTask_frame [of 1 "tasks demo_page" "''id1''"
          "no_updates\<lparr>upd_status := Some Ready\<rparr>" "''n''" 0]
  by (simp add: demo_defs spread_def spread_key_def no_updates_def)

text \<open>
  C10. For every collection and every id that no task of it carries, \<open>updateTask\<close> returns
  the collection as it was, for any update: nothing is raised (the function is total) and
  nothing is inserted. So when the task of a publish attempt is no longer in the store at
  the moment the request settles, the second part of \<open>handlePublish\<close> leaves the collection
  as it found it, whatever the outcome was.
\<close>

theorem unknown_id_update_dropped:
  assumes "taskId \<notin> task_id ` set current"
  shows "updateTask taskId updates now current = current \<and>
         (tasks st = current \<and> task_id task = taskId \<longrightarrow>
            tasks (handlePublish_finish now task fetched st) = current)"
  using assms by (auto simp: handlePublish_finish_def setTasks_def updateTask_absent)

theorem unknown_id_update_dropped_witness:
  "''id1'' \<notin> task_id ` set (deleteTask ''id1'' (tasks demo_page)) \<and>
   updateTask ''id1'' (catchPublish OtherValue) ''n2'' (deleteTask ''id1'' (tasks demo_page)) =
     [demo_other] \<and>
   tasks (handlePublish_finish ''n2'' demo_task (Inl OtherValue)
            (setTasks (deleteTask ''id1'') (handlePublish_start ''n1'' demo_task demo_page))) =
     [demo_other]"
proof -
  let ?st = "setTasks (deleteTask ''id1'') (handlePublish_start ''n1'' demo_task demo_page)"
  have cur: "tasks ?st = deleteTask ''id1'' (tasks demo_page)"
    by (simp add: demo_defs setTasks_def handlePublish_start_def deleteTask_def updateTask_def
        spread_def spread_key_def no_updates_def)
  have del: "deleteTask ''id1'' (tasks demo_page) = [demo_other]"
    by (simp add: demo_defs deleteTask_def)
  have absent: "''id1'' \<notin> task_id ` set (deleteTask ''id1'' (tasks demo_page))"
    by (rule task_id_deleteTask)
  have tid: "task_id demo_task = ''id1''"
    by (simp add: demo_task_def)
  from unknown_id_update_dropped [OF absent, of "catchPublish OtherValue" "''n2''" ?st
      demo_task "Inl OtherValue"]
  show ?thesis using cur del absent tid by simp
qed

section \<open>Staging a task\<close>

text \<open>
  C5. Saving a draft appends exactly one task to the collection, and that task's status is
  \<open>Queued\<close> if the draft's \<open>autopost\<close> flag is set and \<open>Ready\<close> otherwise; so it is \<open>Queued\<close>
  if and only if the flag is set. This holds for every draft, the valid ones included.
\<close>

theorem saveTaskDraft_status:
  "length (tasks (saveTaskDraft newId createdNow updatedNow resetNow st)) = Suc (length (tasks st)) \<and>
   butlast (tasks (saveTaskDraft newId createdNow updatedNow resetNow st)) = tasks st \<and>
   status (last (tasks (saveTaskDraft newId createdNow updatedNow resetNow st))) =
     (if autopost (draft st) then Queued else Ready) \<and>
   (status (last (tasks (saveTaskDraft newId createdNow updatedNow resetNow st))) = Queued
      \<longleftrightarrow> autopost (draft st))"
  by (simp add: saveTaskDraft_def setTasks_def Let_def)

theorem saveTaskDraft_status_witness:
  "status (last (tasks (saveTaskDraft ''id3'' ''n'' ''n'' ''n'' demo_page))) = Queued \<and>
   status (last (tasks (saveTaskDraft ''id3'' ''n'' ''n'' ''n''
      (demo_page\<lparr>draft := (draft demo_page)\<lparr>autopost := False\<rparr>\<rparr>)))) = Ready"
  using saveTaskDraft_status [of "''id3''" "''n''" "''n''" "''n''" demo_page]
        saveTaskDraft_status [of "''id3''" "''n''" "''n''" "''n''"
          "demo_page\<lparr>draft := (draft demo_page)\<lparr>autopost := False\<rparr>\<rparr>"]
  by (simp add: demo_page_def initialTaskDraft_def)

section \<open>The overdue set\<close>

text \<open>
  C4. \<open>now\<close> is the clock as read when the projection is recomputed. For every collection
  and every such instant, a task is in the overdue set if and only if it is in the
  collection, the host reads its \<open>date\<close>, the letter \<open>T\<close> and its \<open>time\<close> as an instant
  strictly before \<open>now\<close>, and its status is not \<open>Published\<close>. Hence a task of the collection
  scheduled before \<open>now\<close> is overdue in each of the states \<open>Failed\<close>, \<open>Queued\<close>, \<open>Ready\<close>,
  \<open>Draft\<close> and \<open>Publishing\<close>; a task scheduled at \<open>now\<close> or later is never overdue, whatever
  its status; and a \<open>Published\<close> task is never overdue.
\<close>

theorem overdue_membership:
  "(task \<in> set (overdueTasks parseDate now current) \<longleftrightarrow>
      task \<in> set current \<and>
      (\<exists>ms. parseDate (date task @ ''T'' @ time task) = Some ms \<and> ms < now) \<and>
      status task \<noteq> Published) \<and>
   (task \<in> set current \<and>
      (\<exists>ms. parseDate (date task @ ''T'' @ time task) = Some ms \<and> ms < now) \<and>
      status task \<in> {Failed, Queued, Ready, Draft, Publishing}
      \<longrightarrow> task \<in> set (overdueTasks parseDate now current)) \<and>
   ((\<exists>ms. parseDate (date task @ ''T'' @ time task) = Some ms \<and> now \<le> ms)
      \<longrightarrow> task \<notin> set (overdueTasks parseDate now current)) \<and>
   (status task = Published \<longrightarrow> task \<notin> set (overdueTasks parseDate now current))"
  by (auto simp: overdueTasks_def scheduledAt_def isBefore_def split: option.splits)

theorem overdue_membership_witness:
  "demo_task \<in> set (tasks demo_page) \<and>
   demo_parseDate (date demo_task @ ''T'' @ time demo_task) = Some 1704103200000 \<and>
   status demo_task = Queued \<and>
   demo_task \<in> set (overdueTasks demo_parseDate 1704188800000 (tasks demo_page)) \<and>
   demo_task \<notin> set (overdueTasks demo_parseDate 1704000000000 (tasks demo_page)) \<and>
   demo_other \<notin> set (overdueTasks demo_parseDate 1804000000000 (tasks demo_page))"
proof -
  have sched: "demo_parseDate (date demo_task @ ''T'' @ time demo_task) = Some 1704103200000"
    by (simp add: demo_parseDate_def demo_task_def)
  have mem: "demo_task \<in> set (tasks demo_page)"
    by (simp add: demo_page_def)
  have st: "status demo_task = Queued" "status demo_other = Published"
    by (simp_all add: demo_task_def demo_other_def)
  show ?thesis
    using overdue_membership [of demo_task demo_parseDate 1704188800000 "tasks demo_page"]
          overdue_membership [of demo_task demo_parseDate 1704000000000 "tasks demo_page"]
          overdue_membership [of demo_other demo_parseDate 1804000000000 "tasks demo_page"]
          sched mem st
    by simp
qed

section \<open>The outbound payload\<close>

lemma join_space_Nil: "join '' '' xs = [] \<longleftrightarrow> xs = [] \<or> xs = [[]]"
  by (induction "'' ''" xs rule: join.induct) auto

text \<open>
  C3, as stated, fails: for a task with an empty caption and the hashtags \<open>#a\<close>, \<open>#b\<close> the
  payload's caption is \<open>#a #b\<close>, not a blank line followed by \<open>#a #b\<close>.
\<close>

theorem payload_caption_counterexample:
  "hashtags (demo_task\<lparr>caption := []\<rparr>) \<noteq> [] \<and>
   payload_caption (publishPayload (demo_task\<lparr>caption := []\<rparr>)) \<noteq>
     caption (demo_task\<lparr>caption := []\<rparr>) @ [CHR 0x0A, CHR 0x0A] @
       join '' '' (hashtags (demo_task\<lparr>caption := []\<rparr>))"
  by (simp add: demo_task_def publishPayload_def truthy_def)

text \<open>
  C3, amended. For every task the payload carries the task's \<open>videoUrl\<close> verbatim, and its
  caption is made of the non-empty ones among the task's caption and the space-joined
  hashtags: the caption alone when the joined hashtags are the empty string, the joined
  hashtags alone when the caption is empty, and otherwise the caption, a blank line, and
  the joined hashtags. In particular it is the caption alone when the hashtag list is
  empty, and caption, blank line, joined hashtags when the caption is non-empty and the
  hashtag list is neither empty nor the single empty string.
\<close>

theorem publishPayload_caption:
  "payload_videoUrl (publishPayload task) = videoUrl task \<and>
   payload_caption (publishPayload task) =
     (if join '' '' (hashtags task) = [] then caption task
      else if caption task = [] then join '' '' (hashtags task)
      else caption task @ [CHR 0x0A, CHR 0x0A] @ join '' '' (hashtags task)) \<and>
   (hashtags task = [] \<longrightarrow> payload_caption (publishPayload task) = caption task) \<and>
   (caption task \<noteq> [] \<and> hashtags task \<noteq> [] \<and> hashtags task \<noteq> [[]] \<longrightarrow>
      payload_caption (publishPayload task) =
        caption task @ [CHR 0x0A, CHR 0x0A] @ join '' '' (hashtags task))"
  by (auto simp: publishPayload_def truthy_def join_space_Nil)

theorem publishPayload_caption_witness:
  "caption demo_task \<noteq> [] \<and> hashtags demo_task \<noteq> [] \<and> hashtags demo_task \<noteq> [[]] \<and>
   hashtags demo_other = [] \<and>
   payload_videoUrl (publishPayload demo_task) = ''https://cdn.example/v.mp4'' \<and>
   payload_caption (publishPayload demo_task) = ''Hello'' @ [CHR 0x0A, CHR 0x0A] @ ''#a #b'' \<and>
   payload_caption (publishPayload demo_other) = ''Later''"
  using publishPayload_caption [of demo_task] publishPayload_caption [of demo_other]
  by (simp add: demo_task_def demo_other_def)

section \<open>The outcome of a publish attempt\<close>

lemma spread_fields:
  "task_id (spread task updates) = spread_key (task_id task) (upd_task_id updates)"
  "status (spread task updates) = spread_key (status task) (upd_status updates)"
  "task_notes (spread task updates) = spread_key (task_notes task) (upd_notes updates)"
  by (simp_all add: spread_def)

lemma handlePublish_start_nth:
  assumes "i < length (tasks st)" and "task_id (tasks st ! i) = task_id task"
  shows "tasks (handlePublish_start now task st) ! i =
           (spread (tasks st ! i) (no_updates\<lparr>upd_status := Some Publishing\<rparr>))\<lparr>updatedAt := now\<rparr>"
  using assms by (simp add: handlePublish_start_def setTasks_def updateTask_def)

lemma length_handlePublish_start:
  "length (tasks (handlePublish_start now task st)) = length (tasks st)"
  by (simp add: handlePublish_start_def setTasks_def updateTask_def)

lemma handlePublish_finish_nth:
  assumes "i < length (tasks st)" and "task_id (tasks st ! i) = task_id task"
  shows "tasks (handlePublish_finish now task fetched st) ! i =
           (spread (tasks st ! i)
              (case tryPublish fetched of Inr updates \<Rightarrow> updates | Inl e \<Rightarrow> catchPublish e))
            \<lparr>updatedAt := now\<rparr>"
  using assms by (simp add: handlePublish_finish_def setTasks_def updateTask_def)

lemma handlePublish_nth:
  assumes "i < length (tasks st)" and "task_id (tasks st ! i) = task_id task"
  shows "tasks (handlePublish fetch now1 now2 task st) ! i =
           (spread (tasks (handlePublish_start now1 task st) ! i)
              (case tryPublish (fetch (publishPayload task)) of
                 Inr updates \<Rightarrow> updates | Inl e \<Rightarrow> catchPublish e))
            \<lparr>updatedAt := now2\<rparr>"
proof -
  have "task_id (tasks (handlePublish_start now1 task st) ! i) = task_id task"
    using assms by (simp add: handlePublish_start_nth spread_fields spread_key_def no_updates_def)
  then show ?thesis
    using assms(1) unfolding handlePublish_def
    by (simp add: handlePublish_finish_nth length_handlePublish_start)
qed

lemma failure_updates:
  assumes "dispatch_failed fetched"
  shows "upd_status (case tryPublish fetched of Inr updates \<Rightarrow> updates | Inl e \<Rightarrow> catchPublish e)
           = Some Failed"
    and "upd_notes (case tryPublish fetched of Inr updates \<Rightarrow> updates | Inl e \<Rightarrow> catchPublish e)
           = Some (Some
               (case fetched of
                  Inl e \<Rightarrow>
                    (case e of ErrorInstance m \<Rightarrow> m
                     | OtherValue \<Rightarrow> ''Unexpected error while publishing.'')
                | Inr response \<Rightarrow>
                    (case json response of
                       Inl e \<Rightarrow>
                         (case e of ErrorInstance m \<Rightarrow> m
                          | OtherValue \<Rightarrow> ''Unexpected error while publishing.'')
                     | Inr result \<Rightarrow>
                         (case result of
                            None \<Rightarrow>
                              if ok response then cannotReadNull ''status''
                              else ''Failed to publish video.''
                          | Some r \<Rightarrow>
                              (case res_message r of
                                 Some m \<Rightarrow> m | None \<Rightarrow> ''Failed to publish video.'')))))"
  using assms
  by (auto simp: dispatch_failed_def tryPublish_def catchPublish_def no_updates_def
      split: sum.splits option.splits thrown.splits)

text \<open>
  C1. Let a task of the store have the id of the task handed to \<open>handlePublish\<close>, and let
  the dispatch fail: \<open>fetch\<close> rejects, or the body is not JSON, or the HTTP status is not
  2xx, or the parsed status field is not \<open>"success"\<close>. Then after the attempt that task's
  status is \<open>Failed\<close>, and its notes are fixed by what \<open>fetch\<close> brought back. When \<open>fetch\<close>
  rejected, or reading the body as JSON did: the message of what was thrown if that is an
  \<open>Error\<close>, and the generic \<open>Unexpected error while publishing.\<close> if it is anything else.
  When the body parsed to an object: the server-provided message, or the generic
  \<open>Failed to publish video.\<close> when there is none. When the body parsed to \<open>null\<close>: that
  same generic string under a non-2xx status, and under a 2xx status the message of the
  \<open>TypeError\<close> that reading the status of \<open>null\<close> throws.
\<close>

theorem publish_failure:
  assumes "i < length (tasks st)" and "task_id (tasks st ! i) = task_id task"
      and "dispatch_failed (fetch (publishPayload task))"
  shows "status (tasks (handlePublish fetch now1 now2 task st) ! i) = Failed \<and>
         task_notes (tasks (handlePublish fetch now1 now2 task st) ! i) =
           Some (case fetch (publishPayload task) of
                   Inl e \<Rightarrow>
                     (case e of ErrorInstance m \<Rightarrow> m
                      | OtherValue \<Rightarrow> ''Unexpected error while publishing.'')
                 | Inr response \<Rightarrow>
                     (case json response of
                        Inl e \<Rightarrow>
                          (case e of ErrorInstance m \<Rightarrow> m
                           | OtherValue \<Rightarrow> ''Unexpected error while publishing.'')
                      | Inr result \<Rightarrow>
                          (case result of
                             None \<Rightarrow>
                               if ok response then cannotReadNull ''status''
                               else ''Failed to publish video.''
                           | Some r \<Rightarrow>
                               (case res_message r of
                                  Some m \<Rightarrow> m | None \<Rightarrow> ''Failed to publish video.''))))"
  using assms(1,2) failure_updates [OF assms(3)]
  by (simp add: handlePublish_nth spread_fields spread_key_def)

theorem publish_failure_witness:
  "(0::nat) < length (tasks demo_page) \<and> task_id (tasks demo_page ! 0) = task_id demo_task \<and>
   dispatch_failed demo_rate_limited \<and> dispatch_failed demo_network_down \<and>
   status (tasks (handlePublish (\<lambda>_. demo_rate_limited) ''n1'' ''n2'' demo_task demo_page) ! 0)
     = Failed \<and>
   task_notes (tasks (handlePublish (\<lambda>_. demo_rate_limited) ''n1'' ''n2'' demo_task demo_page) ! 0)
     = Some ''rate limited'' \<and>
   status (tasks (handlePublish (\<lambda>_. demo_network_down) ''n1'' ''n2'' demo_task demo_page) ! 0)
     = Failed \<and>
   task_notes (tasks (handlePublish (\<lambda>_. demo_network_down) ''n1'' ''n2'' demo_task demo_page) ! 0)
     = Some ''network down''"
proof -
  have h1: "(0::nat) < length (tasks demo_page)"
    and h2: "task_id (tasks demo_page ! 0) = task_id demo_task"
    by (simp_all add: demo_page_def)
  have h3: "dispatch_failed demo_rate_limited" and h4: "dispatch_failed demo_network_down"
    by (simp_all add: dispatch_failed_def demo_rate_limited_def demo_network_down_def)
  have r: "demo_rate_limited =
             Inr \<lparr>ok = False, json = Inr (Some \<lparr>res_status = Some ''error'',
               res_message = Some ''rate limited'', res_instagramMediaId = None\<rparr>)\<rparr>"
    and n: "demo_network_down = Inl (ErrorInstance ''network down'')"
    by (simp_all add: demo_rate_limited_def demo_network_down_def)
  from publish_failure [of 0 demo_page demo_task "\<lambda>_. demo_rate_limited" "''n1''" "''n2''",
      OF h1 h2 h3]
    publish_failure [of 0 demo_page demo_task "\<lambda>_. demo_network_down" "''n1''" "''n2''",
      OF h1 h2 h4]
  show ?thesis using h1 h2 h3 h4 by (simp add: r n)
qed



section \<open>The publish endpoint\<close>

lemma POST_invalid_json:
  "POST publishVideo (Inl e) =
     (Inr \<lparr>payload = errorPayload ''Invalid JSON body received.'', statusCode = 400\<rparr>, [])"
  by (simp add: POST_def)

lemma POST_missing_field:
  assumes "body_videoUrl body \<noteq> NonString" and "body_caption body \<noteq> NonString"
      and "field_missing (body_videoUrl body) \<or> field_missing (body_caption body)"
  shows "POST publishVideo (Inr (Some body)) =
           (Inr \<lparr>payload = errorPayload
                   (if field_missing (body_videoUrl body)
                    then ''Provide a publicly accessible videoUrl.''
                    else ''Caption cannot be empty.''),
                 statusCode = 400\<rparr>, [])"
  using assms
  by (auto simp: POST_def optionalTrim_def field_missing_def truthy_def split: json_field.splits)

lemma POST_non_string_throws:
  assumes "body_videoUrl body = NonString \<or> body_caption body = NonString"
  shows "\<exists>e. POST publishVideo (Inr (Some body)) = (Inl e, [])"
  using assms
  by (auto simp: POST_def optionalTrim_def split: json_field.splits)

text \<open>
  C6 asks for status 400 whenever the body is not JSON or \<open>videoUrl\<close> or \<open>caption\<close> is
  missing or empty. The handler does so for a body that is not JSON (\<open>POST_invalid_json\<close>)
  and for a body other than \<open>null\<close> whose two keys are absent or strings
  (\<open>POST_missing_field\<close>). It does not for the body \<open>null\<close>, which has neither key, nor for
  a body whose \<open>videoUrl\<close> is empty and whose \<open>caption\<close> is not a string: there the handler
  throws a \<open>TypeError\<close> before it reaches its checks, answers nothing itself, and calls no
  upstream.
\<close>

theorem POST_null_body_throws:
  "POST publishVideo (Inr None) = (Inl (ErrorInstance (cannotReadNull ''videoUrl'')), []) \<and>
   field_missing (body_videoUrl \<lparr>body_videoUrl = Str [], body_caption = NonString\<rparr>) \<and>
   POST publishVideo (Inr (Some \<lparr>body_videoUrl = Str [], body_caption = NonString\<rparr>)) =
     (Inl (ErrorInstance (notAFunction ''body.caption?.trim'')), [])"
  by (simp add: POST_def optionalTrim_def field_missing_def trim_def)

lemma POST_upstream_rejects:
  assumes "body_videoUrl body = Str u" and "body_caption body = Str c"
      and "trim u \<noteq> []" and "trim c \<noteq> []"
      and "publishVideo (trim u) (trim c) = Inl e"
  shows "POST publishVideo (Inr (Some body)) = (Inl e, [(trim u, trim c)])"
  using assms by (simp add: POST_def optionalTrim_def truthy_def)



section \<open>Loading the task store\<close>



end
